theory Spec2Isabelle
  imports Main "HOL-Library.Word"
begin

section \<open>Go values\<close>

text \<open>
  The package \<open>ethbinding\<close> (file \<open>pkg/typeutils.go\<close>) is an interface \<open>EthAPI\<close> and one
  implementation \<open>ethAPIShim\<close>, an empty struct whose methods call into go-ethereum.
  go-ethereum, \<open>encoding/json\<close>, \<open>fmt\<close> and \<open>strings\<close> are imported packages: the functions
  of go-ethereum and of \<open>encoding/json\<close> are parameters of the model (records of functions,
  one field for each function the source calls), so every theorem holds for whatever these
  functions return. A Go function with results \<open>(v, err)\<close> is a function into a pair whose
  second component is \<open>None\<close> for a nil error. A slice or a pointer is an option, \<open>None\<close> being
  nil. The receiver of every method is the empty struct and carries no data, so it is not
  an argument of the model.

  Every operation returns, beside its Go results, the list of the calls it made into
  imported packages, in the order of the source: the name of the function called and the
  error that call returned.
\<close>

type_synonym byte = "8 word"
type_synonym uint64 = "64 word"
type_synonym 'a slice = "'a list option"
type_synonym 'a ptr = "'a option"

datatype error = Err string

type_synonym call = "string \<times> error option"

definition elems :: "'a slice \<Rightarrow> 'a list" where
  "elems s = (case s of None \<Rightarrow> [] | Some xs \<Rightarrow> xs)"

section \<open>The wrapped packages other than abi\<close>

text \<open>
  The types of go-ethereum and of the Go standard library that the shim only hands on are
  left unspecified.
\<close>

typedecl Address
typedecl Hash
typedecl Solidity
typedecl Contract
typedecl RPCClient
typedecl Transaction
typedecl Signer
typedecl EIP155Signer
typedecl PrivateKey
typedecl PublicKey
typedecl Stream
typedecl Reader

record ethlib =
  hexutil_Decode :: "string \<Rightarrow> byte slice \<times> error option"
  common_HexToAddress :: "string \<Rightarrow> Address"
  common_BytesToAddress :: "byte slice \<Rightarrow> Address"
  common_IsHexAddress :: "string \<Rightarrow> bool"
  common_HexToHash :: "string \<Rightarrow> Hash"
  hexutil_EncodeBig :: "int ptr \<Rightarrow> string"
  common_FromHex :: "string \<Rightarrow> byte slice"
  compiler_SolidityVersion :: "string \<Rightarrow> Solidity ptr \<times> error option"
  compiler_ParseCombinedJSON ::
    "byte slice \<Rightarrow> string \<Rightarrow> string \<Rightarrow> string \<Rightarrow> string
      \<Rightarrow> (string \<rightharpoonup> Contract ptr) \<times> error option"
  rpc_Dial :: "string \<Rightarrow> RPCClient ptr \<times> error option"
  types_NewTransaction ::
    "uint64 \<Rightarrow> Address \<Rightarrow> int ptr \<Rightarrow> uint64 \<Rightarrow> int ptr \<Rightarrow> byte slice \<Rightarrow> Transaction ptr"
  types_NewContractCreation ::
    "uint64 \<Rightarrow> int ptr \<Rightarrow> uint64 \<Rightarrow> int ptr \<Rightarrow> byte slice \<Rightarrow> Transaction ptr"
  types_NewEIP155Signer :: "int ptr \<Rightarrow> EIP155Signer"
  math_ParseBig256 :: "string \<Rightarrow> int ptr \<times> bool"
  math_S256 :: "int ptr \<Rightarrow> int ptr"
  crypto_GenerateKey :: "PrivateKey ptr \<times> error option"
  crypto_PubkeyToAddress :: "PublicKey \<Rightarrow> Address"
  crypto_FromECDSA :: "PrivateKey ptr \<Rightarrow> byte slice"
  crypto_HexToECDSA :: "string \<Rightarrow> PrivateKey ptr \<times> error option"
  rlp_NewStream :: "Reader \<Rightarrow> uint64 \<Rightarrow> Stream ptr"
  types_SignTx ::
    "Transaction ptr \<Rightarrow> Signer \<Rightarrow> PrivateKey ptr \<Rightarrow> Transaction ptr \<times> error option"

definition HexDecode :: "ethlib \<Rightarrow> string \<Rightarrow> (byte slice \<times> error option) \<times> call list" where
  "HexDecode L hex =
     (let (b, err) = hexutil_Decode L hex
      in ((b, err), [(''hexutil.Decode'', err)]))"

definition HexToAddress :: "ethlib \<Rightarrow> string \<Rightarrow> Address \<times> call list" where
  "HexToAddress L hex =
     (let addr = common_HexToAddress L hex
      in (addr, [(''common.HexToAddress'', None)]))"

definition BytesToAddress :: "ethlib \<Rightarrow> byte slice \<Rightarrow> Address \<times> call list" where
  "BytesToAddress L b = (common_BytesToAddress L b, [(''common.BytesToAddress'', None)])"

definition IsHexAddress :: "ethlib \<Rightarrow> string \<Rightarrow> bool \<times> call list" where
  "IsHexAddress L s = (common_IsHexAddress L s, [(''common.IsHexAddress'', None)])"

definition HexToHash :: "ethlib \<Rightarrow> string \<Rightarrow> Hash \<times> call list" where
  "HexToHash L hex =
     (let hash = common_HexToHash L hex
      in (hash, [(''common.HexToHash'', None)]))"

definition EncodeBig :: "ethlib \<Rightarrow> int ptr \<Rightarrow> string \<times> call list" where
  "EncodeBig L bigint = (hexutil_EncodeBig L bigint, [(''hexutil.EncodeBig'', None)])"

definition FromHex :: "ethlib \<Rightarrow> string \<Rightarrow> byte slice \<times> call list" where
  "FromHex L hex = (common_FromHex L hex, [(''common.FromHex'', None)])"

definition SolidityVersion ::
  "ethlib \<Rightarrow> string \<Rightarrow> (Solidity ptr \<times> error option) \<times> call list" where
  "SolidityVersion L solc =
     (let (s, err) = compiler_SolidityVersion L solc
      in ((s, err), [(''compiler.SolidityVersion'', err)]))"

definition ParseCombinedJSON ::
  "ethlib \<Rightarrow> byte slice \<Rightarrow> string \<Rightarrow> string \<Rightarrow> string \<Rightarrow> string
     \<Rightarrow> ((string \<rightharpoonup> Contract ptr) \<times> error option) \<times> call list" where
  "ParseCombinedJSON L combinedJSON source languageVersion compilerVersion compilerOptions =
     (let (cs, err) = compiler_ParseCombinedJSON L combinedJSON source languageVersion
                        compilerVersion compilerOptions
      in ((cs, err), [(''compiler.ParseCombinedJSON'', err)]))"

definition Dial :: "ethlib \<Rightarrow> string \<Rightarrow> (RPCClient ptr \<times> error option) \<times> call list" where
  "Dial L rawurl =
     (let (c, err) = rpc_Dial L rawurl
      in ((c, err), [(''rpc.Dial'', err)]))"

definition NewTransaction ::
  "ethlib \<Rightarrow> uint64 \<Rightarrow> Address \<Rightarrow> int ptr \<Rightarrow> uint64 \<Rightarrow> int ptr \<Rightarrow> byte slice
     \<Rightarrow> Transaction ptr \<times> call list" where
  "NewTransaction L nonce to amount gasLimit gasPrice data =
     (types_NewTransaction L nonce to amount gasLimit gasPrice data,
      [(''types.NewTransaction'', None)])"

definition NewContractCreation ::
  "ethlib \<Rightarrow> uint64 \<Rightarrow> int ptr \<Rightarrow> uint64 \<Rightarrow> int ptr \<Rightarrow> byte slice
     \<Rightarrow> Transaction ptr \<times> call list" where
  "NewContractCreation L nonce amount gasLimit gasPrice data =
     (types_NewContractCreation L nonce amount gasLimit gasPrice data,
      [(''types.NewContractCreation'', None)])"

definition NewEIP155Signer :: "ethlib \<Rightarrow> int ptr \<Rightarrow> EIP155Signer \<times> call list" where
  "NewEIP155Signer L chainID =
     (types_NewEIP155Signer L chainID, [(''types.NewEIP155Signer'', None)])"

definition ParseBig256 :: "ethlib \<Rightarrow> string \<Rightarrow> (int ptr \<times> bool) \<times> call list" where
  "ParseBig256 L s = (math_ParseBig256 L s, [(''math.ParseBig256'', None)])"

definition S256 :: "ethlib \<Rightarrow> int ptr \<Rightarrow> int ptr \<times> call list" where
  "S256 L x = (math_S256 L x, [(''math.S256'', None)])"

definition GenerateKey :: "ethlib \<Rightarrow> (PrivateKey ptr \<times> error option) \<times> call list" where
  "GenerateKey L =
     (let (k, err) = crypto_GenerateKey L
      in ((k, err), [(''crypto.GenerateKey'', err)]))"

definition PubkeyToAddress :: "ethlib \<Rightarrow> PublicKey \<Rightarrow> Address \<times> call list" where
  "PubkeyToAddress L p = (crypto_PubkeyToAddress L p, [(''crypto.PubkeyToAddress'', None)])"

definition FromECDSA :: "ethlib \<Rightarrow> PrivateKey ptr \<Rightarrow> byte slice \<times> call list" where
  "FromECDSA L priv = (crypto_FromECDSA L priv, [(''crypto.FromECDSA'', None)])"

definition HexToECDSA ::
  "ethlib \<Rightarrow> string \<Rightarrow> (PrivateKey ptr \<times> error option) \<times> call list" where
  "HexToECDSA L hexkey =
     (let (k, err) = crypto_HexToECDSA L hexkey
      in ((k, err), [(''crypto.HexToECDSA'', err)]))"

definition NewStream :: "ethlib \<Rightarrow> Reader \<Rightarrow> uint64 \<Rightarrow> Stream ptr \<times> call list" where
  "NewStream L r inputLimit = (rlp_NewStream L r inputLimit, [(''rlp.NewStream'', None)])"

definition SignTx ::
  "ethlib \<Rightarrow> Transaction ptr \<Rightarrow> Signer \<Rightarrow> PrivateKey ptr
     \<Rightarrow> (Transaction ptr \<times> error option) \<times> call list" where
  "SignTx L tx s prv =
     (let (tx', err) = types_SignTx L tx s prv
      in ((tx', err), [(''types.SignTx'', err)]))"

section \<open>The abi package and the JSON conversions\<close>

text \<open>
  The declarations of \<open>ABIArgumentMarshaling\<close>, \<open>ABIElementMarshaling\<close>, \<open>ABIMarshaling\<close>
  and of the aliases \<open>ABIArgument\<close>, \<open>ABIArguments\<close>, \<open>ABIEvent\<close> are in another file of
  the package; the types below have the fields that \<open>typeutils.go\<close> reads and writes (the
  selectors of the two marshaling types carry the prefixes \<open>a\<close> and \<open>e\<close>). \<open>abi.Type\<close>, \<open>abi.ArgumentMarshaling\<close>, \<open>abi.ABI\<close>,
  \<open>abi.Method\<close> and \<open>abi.FunctionType\<close> are type parameters.
\<close>

datatype ABIArgumentMarshaling =
  ABIArgumentMarshaling
    (aName: string) (aType: string) (aInternalType: string)
    (aComponents: "ABIArgumentMarshaling list option") (aIndexed: bool)

record ABIElementMarshaling =
  eName :: string
  eAnonymous :: bool
  eStateMutability :: string
  eConstant :: bool
  ePayable :: bool
  eInputs :: "ABIArgumentMarshaling slice"
  eOutputs :: "ABIArgumentMarshaling slice"

type_synonym ABIMarshaling = "ABIElementMarshaling slice"

record 'ty ABIArgument =
  Name :: string
  Type :: 'ty
  Indexed :: bool

type_synonym 'ty ABIArguments = "'ty ABIArgument slice"

record 'ty ABIEvent =
  RawName :: string
  Inputs :: "'ty ABIArguments"

text \<open>
  \<open>Type_zero\<close> and \<open>ABI_zero\<close> are the zero values of \<open>abi.Type\<close> and \<open>abi.ABI\<close>, which
  \<open>var t ABIType\<close>, \<open>make(ABIArguments, n)\<close> and \<open>var runtime RuntimeABI\<close> produce.
  \<open>json.Marshal\<close> and \<open>json.Unmarshal\<close> have one field for each type they are called at;
  \<open>json.Unmarshal\<close> takes the value of the variable it writes to and returns the new one.
\<close>

record ('ty, 'am, 'abi, 'meth, 'ft) abilib =
  Type_zero :: 'ty
  ABI_zero :: 'abi
  abi_Function :: 'ft
  abi_NewType :: "string \<Rightarrow> string \<Rightarrow> 'am slice \<Rightarrow> 'ty \<times> error option"
  abi_Type_String :: "'ty \<Rightarrow> string"
  abi_NewEvent :: "string \<Rightarrow> string \<Rightarrow> bool \<Rightarrow> 'ty ABIArguments \<Rightarrow> 'ty ABIEvent"
  abi_NewMethod ::
    "string \<Rightarrow> string \<Rightarrow> 'ft \<Rightarrow> string \<Rightarrow> bool \<Rightarrow> bool \<Rightarrow> 'ty ABIArguments \<Rightarrow> 'ty ABIArguments
      \<Rightarrow> 'meth"
  abi_JSON :: "Reader \<Rightarrow> 'abi \<times> error option"
  json_Marshal_ABIMarshaling :: "ABIMarshaling \<Rightarrow> byte slice \<times> error option"
  json_Unmarshal_RuntimeABI :: "byte slice \<Rightarrow> 'abi \<Rightarrow> 'abi \<times> error option"
  json_Marshal_Components :: "ABIArgumentMarshaling slice \<Rightarrow> byte slice \<times> error option"
  json_Unmarshal_Components :: "byte slice \<Rightarrow> 'am slice \<Rightarrow> 'am slice \<times> error option"

subsection \<open>Type construction\<close>

definition ABITypeFor ::
  "('ty, 'am, 'abi, 'meth, 'ft) abilib \<Rightarrow> string \<Rightarrow> ('ty \<times> error option) \<times> call list" where
  "ABITypeFor L typeName =
     (let t = Type_zero L;
          (t, err) = abi_NewType L typeName '''' (Some [])
      in ((t, err), [(''abi.NewType'', err)]))"

definition ABITypeKnown ::
  "('ty, 'am, 'abi, 'meth, 'ft) abilib \<Rightarrow> string \<Rightarrow> 'ty \<times> call list" where
  "ABITypeKnown L typeName =
     (let t = Type_zero L;
          (t, err) = abi_NewType L typeName '''' (Some [])
      in (t, [(''abi.NewType'', err)]))"

definition NewType ::
  "('ty, 'am, 'abi, 'meth, 'ft) abilib \<Rightarrow> string \<Rightarrow> string
     \<Rightarrow> ('ty \<times> error option) \<times> call list" where
  "NewType L typeName internalType =
     (let (typ, err) = abi_NewType L typeName internalType (Some [])
      in ((typ, err), [(''abi.NewType'', err)]))"

subsection \<open>Event signatures\<close>

text \<open>
  \<open>strings.Join\<close> as the Go standard library has it: the empty string for no element, the
  element for one, and otherwise the first element followed, for each further element, by
  the separator and the element. \<open>fmt.Sprintf("%v(%v)", a, b)\<close> on two strings writes
  \<open>a\<close>, an opening parenthesis, \<open>b\<close> and a closing parenthesis.
\<close>

fun strings_Join :: "string list \<Rightarrow> string \<Rightarrow> string" where
  "strings_Join [] sep = ''''"
| "strings_Join [x] sep = x"
| "strings_Join (x # xs) sep = foldl (\<lambda>b s. b @ sep @ s) x xs"

definition fmt_Sprintf_v_paren_v :: "string \<Rightarrow> string \<Rightarrow> string" where
  "fmt_Sprintf_v_paren_v a b = a @ ''('' @ b @ '')''"

text \<open>The loop of \<open>ABIEventSignature\<close>: \<open>typeStrings[i] = input.Type.String()\<close>.\<close>

fun signature_loop ::
  "('ty, 'am, 'abi, 'meth, 'ft) abilib \<Rightarrow> 'ty ABIArgument list \<Rightarrow> nat \<Rightarrow> string list \<Rightarrow> call list
     \<Rightarrow> string list \<times> call list" where
  "signature_loop L [] i typeStrings tr = (typeStrings, tr)"
| "signature_loop L (input # rest) i typeStrings tr =
     signature_loop L rest (Suc i)
       (typeStrings[i := abi_Type_String L (Type input)])
       (tr @ [(''abi.Type.String'', None)])"

text \<open>
  \<open>event\<close> is a pointer; reading \<open>event.Inputs\<close> through a nil pointer panics, which is the
  result \<open>None\<close>.
\<close>

definition ABIEventSignature ::
  "('ty, 'am, 'abi, 'meth, 'ft) abilib \<Rightarrow> 'ty ABIEvent ptr \<Rightarrow> (string \<times> call list) option" where
  "ABIEventSignature L event =
     (case event of
        None \<Rightarrow> None
      | Some ev \<Rightarrow>
          (let typeStrings = replicate (length (elems (Inputs ev))) '''';
               (typeStrings, tr) = signature_loop L (elems (Inputs ev)) 0 typeStrings [];
               joined = strings_Join typeStrings '',''
           in Some (fmt_Sprintf_v_paren_v (RawName ev) joined,
                    tr @ [(''strings.Join'', None), (''fmt.Sprintf'', None)])))"

text \<open>
  The signature as the specification words it: the renderings of the input types joined
  by a comma, between parentheses, after the raw name.
\<close>

fun joined_by :: "string \<Rightarrow> string list \<Rightarrow> string" where
  "joined_by sep [] = ''''"
| "joined_by sep [x] = x"
| "joined_by sep (x # y # ys) = x @ sep @ joined_by sep (y # ys)"

definition event_signature_spec ::
  "('ty, 'am, 'abi, 'meth, 'ft) abilib \<Rightarrow> 'ty ABIEvent \<Rightarrow> string" where
  "event_signature_spec L ev =
     RawName ev @ ''('' @
     joined_by '','' (map (\<lambda>input. abi_Type_String L (Type input)) (elems (Inputs ev))) @ '')''"

subsection \<open>Conversions from the serialized ABI\<close>

definition ABIMarshalingToABIRuntime ::
  "('ty, 'am, 'abi, 'meth, 'ft) abilib \<Rightarrow> ABIMarshaling
     \<Rightarrow> ('abi ptr \<times> error option) \<times> call list" where
  "ABIMarshalingToABIRuntime L marshalable =
     (let runtime = ABI_zero L;
          (b, e1) = json_Marshal_ABIMarshaling L marshalable;
          (runtime, err) = json_Unmarshal_RuntimeABI L b runtime
      in ((Some runtime, err), [(''json.Marshal'', e1), (''json.Unmarshal'', err)]))"

text \<open>
  Lines 160 to 164: \<open>components\<close> stays nil unless \<open>mArg.Components\<close> is not nil, in which
  case it is the outcome of a JSON round trip whose two errors are dropped.
\<close>

definition convert_components ::
  "('ty, 'am, 'abi, 'meth, 'ft) abilib \<Rightarrow> ABIArgumentMarshaling \<Rightarrow> 'am slice \<times> call list" where
  "convert_components L mArg =
     (case aComponents mArg of
        None \<Rightarrow> (None, [])
      | Some cs \<Rightarrow>
          (let (b, e1) = json_Marshal_Components L (Some cs);
               (components, e2) = json_Unmarshal_Components L b None
           in (components, [(''json.Marshal'', e1), (''json.Unmarshal'', e2)])))"

text \<open>
  The loop of \<open>ABIArgumentsMarshalingToABIArguments\<close> over the elements from index \<open>i\<close> on;
  \<open>arguments\<close> is the slice made before the loop, written by index: the type before the
  error is looked at, the name and the flag after.
\<close>

fun arguments_loop ::
  "('ty, 'am, 'abi, 'meth, 'ft) abilib \<Rightarrow> ABIArgumentMarshaling list \<Rightarrow> nat
     \<Rightarrow> 'ty ABIArgument list \<Rightarrow> call list \<Rightarrow> ('ty ABIArguments \<times> error option) \<times> call list" where
  "arguments_loop L [] i arguments tr = ((Some arguments, None), tr)"
| "arguments_loop L (mArg # rest) i arguments tr =
     (case convert_components L mArg of (components, tr_c) \<Rightarrow>
      (case abi_NewType L (aType mArg) (aInternalType mArg) components of (t, err) \<Rightarrow>
       (let arguments = arguments[i := (arguments ! i)\<lparr>Type := t\<rparr>];
            tr = tr @ tr_c @ [(''abi.NewType'', err)]
        in case err of
             Some e \<Rightarrow> ((None, Some e), tr)
           | None \<Rightarrow>
               arguments_loop L rest (Suc i)
                 (arguments[i := (arguments ! i)\<lparr>Name := aName mArg,
                                                  Indexed := aIndexed mArg\<rparr>])
                 tr)))"

definition ABIArgumentsMarshalingToABIArguments ::
  "('ty, 'am, 'abi, 'meth, 'ft) abilib \<Rightarrow> ABIArgumentMarshaling slice
     \<Rightarrow> ('ty ABIArguments \<times> error option) \<times> call list" where
  "ABIArgumentsMarshalingToABIArguments L marshalable =
     (let arguments = replicate (length (elems marshalable))
                        \<lparr>Name = '''', Type = Type_zero L, Indexed = False\<rparr>
      in arguments_loop L (elems marshalable) 0 arguments [])"

definition ABIElementMarshalingToABIEvent ::
  "('ty, 'am, 'abi, 'meth, 'ft) abilib \<Rightarrow> ABIElementMarshaling ptr
     \<Rightarrow> (('ty ABIEvent ptr \<times> error option) \<times> call list) option" where
  "ABIElementMarshalingToABIEvent L marshalable =
     (case marshalable of
        None \<Rightarrow> None
      | Some m \<Rightarrow>
          (case ABIArgumentsMarshalingToABIArguments L (eInputs m) of ((inputs, err), tr) \<Rightarrow>
           (case err of
              None \<Rightarrow>
                (let nEvent = abi_NewEvent L (eName m) (eName m) (eAnonymous m) inputs
                 in Some ((Some nEvent, err), tr @ [(''abi.NewEvent'', None)]))
            | Some e \<Rightarrow> Some ((None, err), tr))))"

definition ABIElementMarshalingToABIMethod ::
  "('ty, 'am, 'abi, 'meth, 'ft) abilib \<Rightarrow> ABIElementMarshaling ptr
     \<Rightarrow> (('meth ptr \<times> error option) \<times> call list) option" where
  "ABIElementMarshalingToABIMethod L m_ptr =
     (case m_ptr of
        None \<Rightarrow> None
      | Some m \<Rightarrow>
          (case ABIArgumentsMarshalingToABIArguments L (eInputs m) of ((inputs, err), tr) \<Rightarrow>
           (case err of
              None \<Rightarrow>
                (case ABIArgumentsMarshalingToABIArguments L (eOutputs m) of
                   ((outputs, err), tr') \<Rightarrow>
                 (case err of
                    None \<Rightarrow>
                      (let nMethod = abi_NewMethod L (eName m) (eName m) (abi_Function L)
                                       (eStateMutability m) (eConstant m) (ePayable m)
                                       inputs outputs
                       in Some ((Some nMethod, err), tr @ tr' @ [(''abi.NewMethod'', None)]))
                  | Some e \<Rightarrow> Some ((None, err), tr @ tr')))
            | Some e \<Rightarrow> Some ((None, err), tr))))"

subsection \<open>The remaining operations on the abi package\<close>

definition JSON ::
  "('ty, 'am, 'abi, 'meth, 'ft) abilib \<Rightarrow> Reader \<Rightarrow> ('abi \<times> error option) \<times> call list" where
  "JSON L reader =
     (let (a, err) = abi_JSON L reader
      in ((a, err), [(''abi.JSON'', err)]))"

definition NewMethod ::
  "('ty, 'am, 'abi, 'meth, 'ft) abilib \<Rightarrow> string \<Rightarrow> string \<Rightarrow> 'ft \<Rightarrow> string \<Rightarrow> bool \<Rightarrow> bool
     \<Rightarrow> 'ty ABIArguments \<Rightarrow> 'ty ABIArguments \<Rightarrow> 'meth \<times> call list" where
  "NewMethod L name rawName funType mutability isConst isPayable inputs outputs =
     (abi_NewMethod L name rawName funType mutability isConst isPayable inputs outputs,
      [(''abi.NewMethod'', None)])"

text \<open>
  What one round of the loop stores at index \<open>i\<close> when \<open>abi.NewType\<close> accepts the element,
  and whether it accepts it.
\<close>

definition converted ::
  "('ty, 'am, 'abi, 'meth, 'ft) abilib \<Rightarrow> ABIArgumentMarshaling \<Rightarrow> 'ty ABIArgument" where
  "converted L mArg =
     \<lparr>Name = aName mArg,
      Type = fst (abi_NewType L (aType mArg) (aInternalType mArg)
                    (fst (convert_components L mArg))),
      Indexed = aIndexed mArg\<rparr>"

definition accepted ::
  "('ty, 'am, 'abi, 'meth, 'ft) abilib \<Rightarrow> ABIArgumentMarshaling \<Rightarrow> bool" where
  "accepted L mArg =
     (snd (abi_NewType L (aType mArg) (aInternalType mArg)
             (fst (convert_components L mArg))) = None)"

text \<open>
  The error of \<open>abi.NewType\<close> for the first element of a list that it rejects, nil when it
  accepts every element.
\<close>

fun first_rejection ::
  "('ty, 'am, 'abi, 'meth, 'ft) abilib \<Rightarrow> ABIArgumentMarshaling list \<Rightarrow> error option" where
  "first_rejection L [] = None"
| "first_rejection L (mArg # rest) =
     (case snd (abi_NewType L (aType mArg) (aInternalType mArg)
                  (fst (convert_components L mArg))) of
        Some e \<Rightarrow> Some e
      | None \<Rightarrow> first_rejection L rest)"

section \<open>The interface\<close>

text \<open>
  The methods of the interface \<open>EthAPI\<close>, lines 40 to 70 of \<open>typeutils.go\<close>, in the order
  of the declaration, each with the imported packages its implementation calls.
\<close>

definition EthAPI :: "(string \<times> string list) list" where
  "EthAPI =
    [(''HexDecode'', [''hexutil'']),
     (''HexToAddress'', [''common'']),
     (''BytesToAddress'', [''common'']),
     (''IsHexAddress'', [''common'']),
     (''HexToHash'', [''common'']),
     (''EncodeBig'', [''hexutil'']),
     (''FromHex'', [''common'']),
     (''ABITypeFor'', [''abi'']),
     (''ABITypeKnown'', [''abi'']),
     (''NewType'', [''abi'']),
     (''ABIEventSignature'', [''abi'', ''strings'', ''fmt'']),
     (''ABIMarshalingToABIRuntime'', [''json'']),
     (''ABIArgumentsMarshalingToABIArguments'', [''json'', ''abi'']),
     (''ABIElementMarshalingToABIEvent'', [''json'', ''abi'']),
     (''ABIElementMarshalingToABIMethod'', [''json'', ''abi'']),
     (''JSON'', [''abi'']),
     (''SolidityVersion'', [''compiler'']),
     (''ParseCombinedJSON'', [''compiler'']),
     (''Dial'', [''rpc'']),
     (''NewMethod'', [''abi'']),
     (''NewTransaction'', [''types'']),
     (''NewContractCreation'', [''types'']),
     (''NewEIP155Signer'', [''types'']),
     (''ParseBig256'', [''math'']),
     (''S256'', [''math'']),
     (''GenerateKey'', [''crypto'']),
     (''PubkeyToAddress'', [''crypto'']),
     (''FromECDSA'', [''crypto'']),
     (''HexToECDSA'', [''crypto'']),
     (''NewStream'', [''rlp'']),
     (''SignTx'', [''types''])]"

definition EthAPI_methods :: "string list" where
  "EthAPI_methods = map fst EthAPI"

text \<open>
  The areas the specification lists, each with the methods of the interface that belong
  to it.
\<close>

datatype area =
  HexAddressConversion | ABITypeConstruction | SignatureDerivation | SolidityCompiler
  | RPCDialing | TransactionConstructionAndSigning | KeyGeneration | RLPStreamDecoding

fun area_methods :: "area \<Rightarrow> string list" where
  "area_methods HexAddressConversion =
     [''HexDecode'', ''HexToAddress'', ''BytesToAddress'', ''IsHexAddress'', ''HexToHash'',
      ''EncodeBig'', ''FromHex'']"
| "area_methods ABITypeConstruction = [''ABITypeFor'', ''ABITypeKnown'', ''NewType'']"
| "area_methods SignatureDerivation = [''ABIEventSignature'', ''NewMethod'']"
| "area_methods SolidityCompiler = [''SolidityVersion'', ''ParseCombinedJSON'']"
| "area_methods RPCDialing = [''Dial'']"
| "area_methods TransactionConstructionAndSigning =
     [''NewTransaction'', ''NewContractCreation'', ''NewEIP155Signer'', ''SignTx'']"
| "area_methods KeyGeneration = [''GenerateKey'']"
| "area_methods RLPStreamDecoding = [''NewStream'']"

definition areas :: "area list" where
  "areas = [HexAddressConversion, ABITypeConstruction, SignatureDerivation, SolidityCompiler,
            RPCDialing, TransactionConstructionAndSigning, KeyGeneration, RLPStreamDecoding]"

definition covered :: "area \<Rightarrow> bool" where
  "covered a = (area_methods a \<noteq> [] \<and> list_all (\<lambda>m. m \<in> set EthAPI_methods) (area_methods a))"

text \<open>
  \<open>roughly forty\<close> read as forty to the nearest ten.
\<close>

definition roughly_forty :: "nat \<Rightarrow> bool" where
  "roughly_forty n = (35 \<le> n \<and> n < 45)"

section \<open>Errors and calls\<close>

text \<open>
  The error of the last call of a trace, nil for an empty trace; and the errors that calls
  of a trace returned and that are not the error \<open>ret\<close> the operation returns (\<open>None\<close> for
  an operation without an error result).
\<close>

fun last_error :: "call list \<Rightarrow> error option" where
  "last_error [] = None"
| "last_error (c # cs) = snd (last (c # cs))"

definition suppressed_errors :: "error option \<Rightarrow> call list \<Rightarrow> error list" where
  "suppressed_errors ret tr =
     concat (map (\<lambda>(f, e). case e of None \<Rightarrow> [] | Some x \<Rightarrow> if ret = Some x then [] else [x])
               tr)"

text \<open>
  What the caller of an operation without an error result sees: the value and no error.
\<close>

definition without_error :: "'a \<Rightarrow> 'a \<times> error option" where
  "without_error v = (v, None)"

section \<open>A stand-in for the abi package\<close>

text \<open>
  For evaluating the operations at concrete inputs: a library that knows the types
  \<open>address\<close>, \<open>uint256\<close> and \<open>bool\<close>, and rejects every other type name the way go-ethereum
  does, with the zero type and the error \<open>unsupported arg type\<close>. Its JSON round trips
  never fail; components are not carried over.
\<close>

datatype demo_type = NoType | Elementary string

definition demo_NewType ::
  "string \<Rightarrow> string \<Rightarrow> ABIArgumentMarshaling slice \<Rightarrow> demo_type \<times> error option" where
  "demo_NewType t internalType components =
     (if t \<in> set [''address'', ''uint256'', ''bool'']
      then (Elementary t, None)
      else (NoType, Some (Err (''unsupported arg type: '' @ t))))"

fun demo_String :: "demo_type \<Rightarrow> string" where
  "demo_String NoType = ''''"
| "demo_String (Elementary s) = s"

definition demo_abi ::
  "(demo_type, ABIArgumentMarshaling, string list, string, unit) abilib" where
  "demo_abi =
     \<lparr>Type_zero = NoType,
      ABI_zero = [],
      abi_Function = (),
      abi_NewType = demo_NewType,
      abi_Type_String = demo_String,
      abi_NewEvent = (\<lambda>name rawName anonymous inputs. \<lparr>RawName = rawName, Inputs = inputs\<rparr>),
      abi_NewMethod = (\<lambda>name rawName funType mutability isConst isPayable inputs outputs. rawName),
      abi_JSON = (\<lambda>reader. ([], None)),
      json_Marshal_ABIMarshaling = (\<lambda>m. (Some [], None)),
      json_Unmarshal_RuntimeABI = (\<lambda>b runtime. (runtime, None)),
      json_Marshal_Components = (\<lambda>cs. (Some [], None)),
      json_Unmarshal_Components = (\<lambda>b components. (Some [], None))\<rparr>"

definition transfer_event :: "demo_type ABIEvent" where
  "transfer_event =
     \<lparr>RawName = ''Transfer'',
      Inputs = Some [\<lparr>Name = ''to'', Type = Elementary ''address'', Indexed = True\<rparr>,
                     \<lparr>Name = ''value'', Type = Elementary ''uint256'', Indexed = False\<rparr>]\<rparr>"


section \<open>Lemmas on the loops\<close>

lemmas eth_defs =
  HexDecode_def HexToAddress_def BytesToAddress_def IsHexAddress_def HexToHash_def
  EncodeBig_def FromHex_def SolidityVersion_def ParseCombinedJSON_def Dial_def
  NewTransaction_def NewContractCreation_def NewEIP155Signer_def ParseBig256_def S256_def
  GenerateKey_def PubkeyToAddress_def FromECDSA_def HexToECDSA_def NewStream_def SignTx_def

lemmas abi_defs = ABITypeFor_def NewType_def JSON_def NewMethod_def

lemmas demo_defs = demo_abi_def demo_NewType_def

lemma foldl_sep: "foldl (\<lambda>b s. b @ sep @ s) x xs = x @ concat (map (\<lambda>s. sep @ s) xs)"
  by (induction xs arbitrary: x) simp_all

lemma joined_by_Cons: "joined_by sep (x # xs) = x @ concat (map (\<lambda>s. sep @ s) xs)"
  by (induction xs arbitrary: x) simp_all

lemma strings_Join_joined_by: "strings_Join xs sep = joined_by sep xs"
proof (cases xs)
  case Nil
  then show ?thesis by simp
next
  case (Cons x ys)
  then show ?thesis
    by (cases ys) (simp_all add: foldl_sep joined_by_Cons)
qed

text \<open>
  The loop of \<open>ABIEventSignature\<close> writes the rendering of the \<open>k\<close>-th input at index
  \<open>i + k\<close>, which is within the slice, and calls \<open>String\<close> once for each input.
\<close>

lemma signature_loop_eq:
  "i + length inputs \<le> length ts \<Longrightarrow>
   signature_loop L inputs i ts tr =
     (take i ts @ map (\<lambda>input. abi_Type_String L (Type input)) inputs
        @ drop (i + length inputs) ts,
      tr @ replicate (length inputs) (''abi.Type.String'', None))"
proof (induction inputs arbitrary: i ts tr)
  case Nil
  then show ?case by simp
next
  case (Cons a inputs)
  have "take (Suc i) (ts[i := v]) = take i ts @ [v]" for v
    using Cons.prems by (simp add: take_Suc_conv_app_nth)
  with Cons show ?case
    by (simp add: replicate_app_Cons_same)
qed

lemma ABIEventSignature_value:
  "ABIEventSignature L (Some ev) =
     Some (event_signature_spec L ev,
           replicate (length (elems (Inputs ev))) (''abi.Type.String'', None)
             @ [(''strings.Join'', None), (''fmt.Sprintf'', None)])"
  by (simp add: ABIEventSignature_def signature_loop_eq event_signature_spec_def
      fmt_Sprintf_v_paren_v_def strings_Join_joined_by)

lemma last_error_alt: "last_error xs = (if xs = [] then None else snd (last xs))"
  by (cases xs) simp_all

lemma last_error_append: "ys \<noteq> [] \<Longrightarrow> last_error (xs @ ys) = last_error ys"
  by (simp add: last_error_alt)

lemma last_error_snoc: "last_error (xs @ [(f, e)]) = e"
  by (simp add: last_error_append)

text \<open>
  The loop of \<open>ABIArgumentsMarshalingToABIArguments\<close> only adds calls to the trace, and the
  error it returns is the error of the last call it added.
\<close>

lemma arguments_loop_trace:
  "\<exists>ext. snd (arguments_loop L ms i args tr) = tr @ ext
        \<and> snd (fst (arguments_loop L ms i args tr)) = last_error ext"
proof (induction ms arbitrary: i args tr)
  case Nil
  show ?case by simp
next
  case (Cons mArg rest)
  obtain components tr_c where c: "convert_components L mArg = (components, tr_c)"
    by (cases "convert_components L mArg")
  obtain t err where n: "abi_NewType L (aType mArg) (aInternalType mArg) components = (t, err)"
    by (cases "abi_NewType L (aType mArg) (aInternalType mArg) components")
  let ?here = "tr_c @ [(''abi.NewType'', err)]"
  show ?case
  proof (cases err)
    case (Some e)
    have "snd (arguments_loop L (mArg # rest) i args tr) = tr @ ?here"
      and "snd (fst (arguments_loop L (mArg # rest) i args tr)) = last_error ?here"
      using c n Some by (simp_all add: last_error_snoc)
    then show ?thesis by blast
  next
    case None
    let ?args = "args[i := (args ! i)\<lparr>Type := t\<rparr>]"
    let ?args' = "?args[i := (?args ! i)\<lparr>Name := aName mArg, Indexed := aIndexed mArg\<rparr>]"
    have step: "arguments_loop L (mArg # rest) i args tr =
                arguments_loop L rest (Suc i) ?args' (tr @ ?here)"
      using c n None by simp
    from Cons.IH [of "Suc i" ?args' "tr @ ?here"] obtain ext where
      ext: "snd (arguments_loop L rest (Suc i) ?args' (tr @ ?here)) = (tr @ ?here) @ ext"
        "snd (fst (arguments_loop L rest (Suc i) ?args' (tr @ ?here))) = last_error ext"
      by blast
    have "last_error (?here @ ext) = last_error ext"
    proof (cases ext)
      case Nil
      then show ?thesis using None by (simp add: last_error_snoc)
    next
      case (Cons c cs)
      then show ?thesis by (simp only: last_error_append list.distinct not_False_eq_True)
    qed
    with ext step have "snd (arguments_loop L (mArg # rest) i args tr) = tr @ (?here @ ext)"
      and "snd (fst (arguments_loop L (mArg # rest) i args tr)) = last_error (?here @ ext)"
      by simp_all
    then show ?thesis by blast
  qed
qed

lemma arguments_error_last:
  "snd (fst (ABIArgumentsMarshalingToABIArguments L ms)) =
     last_error (snd (ABIArgumentsMarshalingToABIArguments L ms))"
  using arguments_loop_trace [of L "elems ms" 0 _ "[]"]
  by (auto simp: ABIArgumentsMarshalingToABIArguments_def Let_def)

lemma event_error_last:
  "(case ABIElementMarshalingToABIEvent L (Some m) of
      None \<Rightarrow> False
    | Some r \<Rightarrow> snd (fst r) = last_error (snd r))"
  using arguments_error_last [of L "eInputs m"]
  by (auto simp: ABIElementMarshalingToABIEvent_def last_error_snoc
      split: prod.splits option.splits)

lemma method_error_last:
  "(case ABIElementMarshalingToABIMethod L (Some m) of
      None \<Rightarrow> False
    | Some r \<Rightarrow> snd (fst r) = last_error (snd r))"
proof -
  obtain inputs err tr where
    i: "ABIArgumentsMarshalingToABIArguments L (eInputs m) = ((inputs, err), tr)"
    by (metis prod.exhaust)
  obtain outputs err' tr' where
    out: "ABIArgumentsMarshalingToABIArguments L (eOutputs m) = ((outputs, err'), tr')"
    by (metis prod.exhaust)
  have e1: "err = last_error tr"
    using arguments_error_last [of L "eInputs m"] i by simp
  have e2: "err' = last_error tr'"
    using arguments_error_last [of L "eOutputs m"] out by simp
  show ?thesis
  proof (cases err)
    case (Some e)
    then show ?thesis using i e1 by (simp add: ABIElementMarshalingToABIMethod_def)
  next
    case None
    show ?thesis
    proof (cases err')
      case (Some e)
      then have "tr' \<noteq> []" using e2 by auto
      then have "last_error (tr @ tr') = err'" using e2 by (simp add: last_error_append)
      then show ?thesis
        using i out None Some by (simp add: ABIElementMarshalingToABIMethod_def)
    next
      case None': None
      have "last_error ((tr @ tr') @ [(''abi.NewMethod'', None)]) = None"
        by (rule last_error_snoc)
      then show ?thesis
        using i out None None' by (simp add: ABIElementMarshalingToABIMethod_def)
    qed
  qed
qed

text \<open>
  When \<open>abi.NewType\<close> accepts every element, the loop fills the slice by index, each write
  within its length, and the result is the list of the converted elements.
\<close>

lemma arguments_loop_success:
  "i + length ms \<le> length args \<Longrightarrow> list_all (accepted L) ms \<Longrightarrow>
   fst (arguments_loop L ms i args tr) =
     (Some (take i args @ map (converted L) ms @ drop (i + length ms) args), None)"
proof (induction ms arbitrary: i args tr)
  case Nil
  then show ?case by simp
next
  case (Cons mArg rest)
  obtain components tr_c where c: "convert_components L mArg = (components, tr_c)"
    by (cases "convert_components L mArg")
  obtain t err where n: "abi_NewType L (aType mArg) (aInternalType mArg) components = (t, err)"
    by (cases "abi_NewType L (aType mArg) (aInternalType mArg) components")
  from Cons.prems c n have err: "err = None"
    by (simp add: accepted_def)
  from Cons.prems have i: "i < length args"
    by simp
  let ?args = "args[i := (args ! i)\<lparr>Type := t\<rparr>]"
  let ?args' = "?args[i := (?args ! i)\<lparr>Name := aName mArg, Indexed := aIndexed mArg\<rparr>]"
  have rec: "(args ! i)\<lparr>Type := t, Name := aName mArg, Indexed := aIndexed mArg\<rparr>
               = converted L mArg"
    using c n by (cases "args ! i") (simp add: converted_def)
  have upd: "?args' = args[i := converted L mArg]"
    using i by (simp add: rec)
  have step: "arguments_loop L (mArg # rest) i args tr =
              arguments_loop L rest (Suc i) ?args' (tr @ tr_c @ [(''abi.NewType'', err)])"
    using c n err by simp
  have "take (Suc i) (args[i := converted L mArg]) = take i args @ [converted L mArg]"
    using i by (simp add: take_Suc_conv_app_nth)
  with Cons.IH [of "Suc i" ?args'] Cons.prems show ?case
    unfolding step upd by simp
qed

lemma arguments_success:
  "list_all (accepted L) (elems ms) \<Longrightarrow>
   fst (ABIArgumentsMarshalingToABIArguments L ms) = (Some (map (converted L) (elems ms)), None)"
  using arguments_loop_success [of 0 "elems ms" _ L "[]"]
  by (simp add: ABIArgumentsMarshalingToABIArguments_def)

text \<open>Withheld errors, call by call.\<close>

lemma suppressed_errors_Nil: "suppressed_errors ret [] = []"
  by (simp add: suppressed_errors_def)

lemma suppressed_errors_append:
  "suppressed_errors ret (xs @ ys) = suppressed_errors ret xs @ suppressed_errors ret ys"
  by (simp add: suppressed_errors_def)

lemma suppressed_errors_same: "suppressed_errors e ((f, e) # tr) = suppressed_errors e tr"
  by (cases e) (simp_all add: suppressed_errors_def)

lemma suppressed_errors_None: "suppressed_errors ret ((f, None) # tr) = suppressed_errors ret tr"
  by (simp add: suppressed_errors_def)

lemma suppressed_errors_replicate: "suppressed_errors ret (replicate n (f, None)) = []"
  by (induction n) (simp_all add: suppressed_errors_Nil suppressed_errors_None)

lemma suppressed_errors_last:
  "suppressed_errors e [c, (f, e)] = suppressed_errors e [c]"
  using suppressed_errors_append [of e "[c]" "[(f, e)]"]
  by (simp add: suppressed_errors_same suppressed_errors_Nil)

text \<open>
  The result of the loop, whatever \<open>abi.NewType\<close> returns: a nil slice and the error of
  the first element rejected, or the converted elements and no error.
\<close>

lemma first_rejection_None: "(first_rejection L ms = None) = list_all (accepted L) ms"
  by (induction ms) (auto simp: accepted_def split: option.splits)

lemma arguments_loop_result:
  "i + length ms \<le> length args \<Longrightarrow>
   fst (arguments_loop L ms i args tr) =
     (case first_rejection L ms of
        None \<Rightarrow> (Some (take i args @ map (converted L) ms @ drop (i + length ms) args), None)
      | Some e \<Rightarrow> (None, Some e))"
proof (induction ms arbitrary: i args tr)
  case Nil
  then show ?case by simp
next
  case (Cons mArg rest)
  obtain components tr_c where c: "convert_components L mArg = (components, tr_c)"
    by (cases "convert_components L mArg")
  obtain t err where n: "abi_NewType L (aType mArg) (aInternalType mArg) components = (t, err)"
    by (cases "abi_NewType L (aType mArg) (aInternalType mArg) components")
  show ?case
  proof (cases err)
    case (Some e)
    then show ?thesis using c n by simp
  next
    case None
    from Cons.prems have i: "i < length args"
      by simp
    let ?args = "args[i := (args ! i)\<lparr>Type := t\<rparr>]"
    let ?args' = "?args[i := (?args ! i)\<lparr>Name := aName mArg, Indexed := aIndexed mArg\<rparr>]"
    have rec: "(args ! i)\<lparr>Type := t, Name := aName mArg, Indexed := aIndexed mArg\<rparr>
                 = converted L mArg"
      using c n by (cases "args ! i") (simp add: converted_def)
    have upd: "?args' = args[i := converted L mArg]"
      using i by (simp add: rec)
    have step: "arguments_loop L (mArg # rest) i args tr =
                arguments_loop L rest (Suc i) ?args' (tr @ tr_c @ [(''abi.NewType'', err)])"
      using c n None by simp
    have first: "first_rejection L (mArg # rest) = first_rejection L rest"
      using c n None by simp
    have "take (Suc i) (args[i := converted L mArg]) = take i args @ [converted L mArg]"
      using i by (simp add: take_Suc_conv_app_nth)
    with Cons.IH [of "Suc i" ?args'] Cons.prems show ?thesis
      unfolding step upd first by (simp split: option.splits)
  qed
qed

lemma arguments_result:
  "fst (ABIArgumentsMarshalingToABIArguments L ms) =
     (case first_rejection L (elems ms) of
        None \<Rightarrow> (Some (map (converted L) (elems ms)), None)
      | Some e \<Rightarrow> (None, Some e))"
  using arguments_loop_result [of 0 "elems ms" _ L "[]"]
  by (simp add: ABIArgumentsMarshalingToABIArguments_def split: option.splits)

lemma arguments_error:
  "snd (fst (ABIArgumentsMarshalingToABIArguments L ms)) = first_rejection L (elems ms)"
  by (simp add: arguments_result split: option.splits)

lemma event_result:
  "map_option fst (ABIElementMarshalingToABIEvent L (Some m)) =
     Some (case first_rejection L (elems (eInputs m)) of
             None \<Rightarrow>
               (Some (abi_NewEvent L (eName m) (eName m) (eAnonymous m)
                        (Some (map (converted L) (elems (eInputs m))))), None)
           | Some e \<Rightarrow> (None, Some e))"
  using arguments_result [of L "eInputs m"]
  by (cases "ABIArgumentsMarshalingToABIArguments L (eInputs m)")
     (auto simp: ABIElementMarshalingToABIEvent_def split: option.splits)

lemma method_result:
  "map_option fst (ABIElementMarshalingToABIMethod L (Some m)) =
     Some (case first_rejection L (elems (eInputs m)) of
             Some e \<Rightarrow> (None, Some e)
           | None \<Rightarrow>
               (case first_rejection L (elems (eOutputs m)) of
                  Some e \<Rightarrow> (None, Some e)
                | None \<Rightarrow>
                    (Some (abi_NewMethod L (eName m) (eName m) (abi_Function L)
                             (eStateMutability m) (eConstant m) (ePayable m)
                             (Some (map (converted L) (elems (eInputs m))))
                             (Some (map (converted L) (elems (eOutputs m))))), None)))"
  using arguments_result [of L "eInputs m"] arguments_result [of L "eOutputs m"]
  by (cases "ABIArgumentsMarshalingToABIArguments L (eInputs m)";
      cases "ABIArgumentsMarshalingToABIArguments L (eOutputs m)")
     (auto simp: ABIElementMarshalingToABIMethod_def split: option.splits)

text \<open>
  For a library whose \<open>abi.NewType\<close> returns the zero type beside every error on a name,
  \<open>ABITypeKnown\<close> returns the zero type when \<open>ABITypeFor\<close> returns an error on that name.
\<close>

lemma ABITypeKnown_zero_of_contract:
  assumes "snd (abi_NewType L typeName '''' (Some [])) \<noteq> None
             \<Longrightarrow> fst (abi_NewType L typeName '''' (Some [])) = Type_zero L"
    and "snd (fst (ABITypeFor L typeName)) \<noteq> None"
  shows "fst (ABITypeKnown L typeName) = Type_zero L"
  using assms by (simp add: ABITypeFor_def ABITypeKnown_def Let_def split_beta)

section \<open>Pass-through\<close>

text \<open>
  C1, as amended. For every operation of the interface other than \<open>ABITypeKnown\<close>,
  \<open>ABIEventSignature\<close>, \<open>ABIMarshalingToABIRuntime\<close>,
  \<open>ABIArgumentsMarshalingToABIArguments\<close>, \<open>ABIElementMarshalingToABIEvent\<close> and
  \<open>ABIElementMarshalingToABIMethod\<close>, and for every input, the output and the error the
  operation returns are the output and the error of the go-ethereum function it wraps, on
  the same input (\<open>ABITypeFor\<close> and \<open>NewType\<close> adding an empty list of components, and
  \<open>ABITypeFor\<close> an empty internal type). \<open>ABITypeKnown\<close> returns the output of
  \<open>abi.NewType\<close> without its error.
\<close>

theorem pass_through_results:
  "fst (HexDecode E hex) = hexutil_Decode E hex
   \<and> fst (HexToAddress E hex) = common_HexToAddress E hex
   \<and> fst (BytesToAddress E b) = common_BytesToAddress E b
   \<and> fst (IsHexAddress E s) = common_IsHexAddress E s
   \<and> fst (HexToHash E hex) = common_HexToHash E hex
   \<and> fst (EncodeBig E bigint) = hexutil_EncodeBig E bigint
   \<and> fst (FromHex E hex) = common_FromHex E hex
   \<and> fst (ABITypeFor L typeName) = abi_NewType L typeName '''' (Some [])
   \<and> fst (NewType L typeName internalType) = abi_NewType L typeName internalType (Some [])
   \<and> fst (JSON L reader) = abi_JSON L reader
   \<and> fst (SolidityVersion E solc) = compiler_SolidityVersion E solc
   \<and> fst (ParseCombinedJSON E combinedJSON source languageVersion compilerVersion compilerOptions)
       = compiler_ParseCombinedJSON E combinedJSON source languageVersion compilerVersion
           compilerOptions
   \<and> fst (Dial E rawurl) = rpc_Dial E rawurl
   \<and> fst (NewMethod L name rawName funType mutability isConst isPayable inputs outputs)
       = abi_NewMethod L name rawName funType mutability isConst isPayable inputs outputs
   \<and> fst (NewTransaction E nonce to amount gasLimit gasPrice data)
       = types_NewTransaction E nonce to amount gasLimit gasPrice data
   \<and> fst (NewContractCreation E nonce amount gasLimit gasPrice data)
       = types_NewContractCreation E nonce amount gasLimit gasPrice data
   \<and> fst (NewEIP155Signer E chainID) = types_NewEIP155Signer E chainID
   \<and> fst (ParseBig256 E s) = math_ParseBig256 E s
   \<and> fst (S256 E x) = math_S256 E x
   \<and> fst (GenerateKey E) = crypto_GenerateKey E
   \<and> fst (PubkeyToAddress E p) = crypto_PubkeyToAddress E p
   \<and> fst (FromECDSA E priv) = crypto_FromECDSA E priv
   \<and> fst (HexToECDSA E hexkey) = crypto_HexToECDSA E hexkey
   \<and> fst (NewStream E r inputLimit) = rlp_NewStream E r inputLimit
   \<and> fst (SignTx E tx sg prv) = types_SignTx E tx sg prv
   \<and> fst (ABITypeKnown L typeName) = fst (abi_NewType L typeName '''' (Some []))"
  by (simp add: eth_defs abi_defs ABITypeKnown_def Let_def split_beta)

text \<open>
  C1 as it is written fails. On the type name \<open>foo\<close> the wrapped \<open>abi.NewType\<close> produces an
  error, and the caller of \<open>ABITypeKnown\<close> gets a value and no error.
  \<open>ABIArgumentsMarshalingToABIArguments\<close> on an empty slice returns a result without any
  call into the wrapped library. \<open>ABIElementMarshalingToABIEvent\<close> on an event with an input
  of the unknown type \<open>foo\<close> returns a nil event and the error of \<open>abi.NewType\<close>, and never
  calls \<open>abi.NewEvent\<close>, which has no error result.
\<close>

theorem pass_through_counterexample:
  "without_error (fst (ABITypeKnown demo_abi ''foo''))
     \<noteq> abi_NewType demo_abi ''foo'' '''' (Some [])
   \<and> ABIArgumentsMarshalingToABIArguments demo_abi (Some []) = ((Some [], None), [])
   \<and> ABIElementMarshalingToABIEvent demo_abi
       (Some \<lparr>eName = ''Paid'', eAnonymous = False, eStateMutability = '''', eConstant = False,
              ePayable = False,
              eInputs = Some [ABIArgumentMarshaling ''amount'' ''foo'' '''' None False],
              eOutputs = None\<rparr>)
     = Some ((None, Some (Err ''unsupported arg type: foo'')),
             [(''abi.NewType'', Some (Err ''unsupported arg type: foo''))])"
  by (simp add: without_error_def ABITypeKnown_def demo_defs
      ABIArgumentsMarshalingToABIArguments_def ABIElementMarshalingToABIEvent_def
      convert_components_def elems_def)

section \<open>Event signatures\<close>

text \<open>
  C7. For every event, whatever the number of its inputs, \<open>ABIEventSignature\<close> returns the
  raw name of the event, an opening parenthesis, the \<open>String\<close> renderings of the types of
  the inputs joined by commas, and a closing parenthesis; for an event without inputs (an
  empty or a nil slice) it returns the raw name followed by \<open>()\<close>.
\<close>

theorem ABIEventSignature_spec:
  "map_option fst (ABIEventSignature L (Some ev)) =
     Some (RawName ev @ ''('' @
           joined_by '','' (map (\<lambda>input. abi_Type_String L (Type input)) (elems (Inputs ev)))
           @ '')'')
   \<and> map_option fst (ABIEventSignature L (Some \<lparr>RawName = n, Inputs = Some []\<rparr>))
       = Some (n @ ''()'')
   \<and> map_option fst (ABIEventSignature L (Some \<lparr>RawName = n, Inputs = None\<rparr>))
       = Some (n @ ''()'')"
  by (simp add: ABIEventSignature_value event_signature_spec_def elems_def)

section \<open>The runtime ABI\<close>

text \<open>
  C8. \<open>ABIMarshalingToABIRuntime\<close> returns a pointer that is not nil, whatever its input and
  whatever the JSON functions return, an error included: the address of its local
  variable, holding what \<open>json.Unmarshal\<close> left there.
\<close>

theorem ABIMarshalingToABIRuntime_non_nil:
  "fst (fst (ABIMarshalingToABIRuntime L marshalable)) \<noteq> None
   \<and> fst (fst (ABIMarshalingToABIRuntime L marshalable)) =
       Some (fst (json_Unmarshal_RuntimeABI L
                    (fst (json_Marshal_ABIMarshaling L marshalable)) (ABI_zero L)))
   \<and> snd (fst (ABIMarshalingToABIRuntime L marshalable)) =
       snd (json_Unmarshal_RuntimeABI L
              (fst (json_Marshal_ABIMarshaling L marshalable)) (ABI_zero L))"
  by (simp add: ABIMarshalingToABIRuntime_def Let_def split_beta)

section \<open>Delegation\<close>

text \<open>
  C2, as amended. Every operation of the interface other than \<open>ABIEventSignature\<close>,
  \<open>ABIMarshalingToABIRuntime\<close>, \<open>ABIArgumentsMarshalingToABIArguments\<close>,
  \<open>ABIElementMarshalingToABIEvent\<close> and \<open>ABIElementMarshalingToABIMethod\<close> is a delegation to
  one function of the wrapped library, of the same or nearly the same name: it makes that
  one call, on its own arguments, and returns what the call returns, computing nothing of
  its own (\<open>ABITypeFor\<close>, \<open>ABITypeKnown\<close> and \<open>NewType\<close> add an empty list of components,
  the first two an empty internal type, and \<open>ABITypeKnown\<close> returns the type without the
  error).
\<close>

theorem single_delegation:
  "HexDecode E hex = (hexutil_Decode E hex, [(''hexutil.Decode'', snd (hexutil_Decode E hex))])
   \<and> HexToAddress E hex = (common_HexToAddress E hex, [(''common.HexToAddress'', None)])
   \<and> BytesToAddress E b = (common_BytesToAddress E b, [(''common.BytesToAddress'', None)])
   \<and> IsHexAddress E s = (common_IsHexAddress E s, [(''common.IsHexAddress'', None)])
   \<and> HexToHash E hex = (common_HexToHash E hex, [(''common.HexToHash'', None)])
   \<and> EncodeBig E bigint = (hexutil_EncodeBig E bigint, [(''hexutil.EncodeBig'', None)])
   \<and> FromHex E hex = (common_FromHex E hex, [(''common.FromHex'', None)])
   \<and> ABITypeFor L typeName =
       (abi_NewType L typeName '''' (Some []),
        [(''abi.NewType'', snd (abi_NewType L typeName '''' (Some [])))])
   \<and> ABITypeKnown L typeName =
       (fst (abi_NewType L typeName '''' (Some [])),
        [(''abi.NewType'', snd (abi_NewType L typeName '''' (Some [])))])
   \<and> NewType L typeName internalType =
       (abi_NewType L typeName internalType (Some []),
        [(''abi.NewType'', snd (abi_NewType L typeName internalType (Some [])))])
   \<and> JSON L reader = (abi_JSON L reader, [(''abi.JSON'', snd (abi_JSON L reader))])
   \<and> SolidityVersion E solc =
       (compiler_SolidityVersion E solc,
        [(''compiler.SolidityVersion'', snd (compiler_SolidityVersion E solc))])
   \<and> ParseCombinedJSON E combinedJSON source languageVersion compilerVersion compilerOptions =
       (compiler_ParseCombinedJSON E combinedJSON source languageVersion compilerVersion
          compilerOptions,
        [(''compiler.ParseCombinedJSON'',
          snd (compiler_ParseCombinedJSON E combinedJSON source languageVersion compilerVersion
                 compilerOptions))])
   \<and> Dial E rawurl = (rpc_Dial E rawurl, [(''rpc.Dial'', snd (rpc_Dial E rawurl))])
   \<and> NewMethod L name rawName funType mutability isConst isPayable inputs outputs =
       (abi_NewMethod L name rawName funType mutability isConst isPayable inputs outputs,
        [(''abi.NewMethod'', None)])
   \<and> NewTransaction E nonce to amount gasLimit gasPrice data =
       (types_NewTransaction E nonce to amount gasLimit gasPrice data,
        [(''types.NewTransaction'', None)])
   \<and> NewContractCreation E nonce amount gasLimit gasPrice data =
       (types_NewContractCreation E nonce amount gasLimit gasPrice data,
        [(''types.NewContractCreation'', None)])
   \<and> NewEIP155Signer E chainID =
       (types_NewEIP155Signer E chainID, [(''types.NewEIP155Signer'', None)])
   \<and> ParseBig256 E s = (math_ParseBig256 E s, [(''math.ParseBig256'', None)])
   \<and> S256 E x = (math_S256 E x, [(''math.S256'', None)])
   \<and> GenerateKey E = (crypto_GenerateKey E, [(''crypto.GenerateKey'', snd (crypto_GenerateKey E))])
   \<and> PubkeyToAddress E p = (crypto_PubkeyToAddress E p, [(''crypto.PubkeyToAddress'', None)])
   \<and> FromECDSA E priv = (crypto_FromECDSA E priv, [(''crypto.FromECDSA'', None)])
   \<and> HexToECDSA E hexkey =
       (crypto_HexToECDSA E hexkey, [(''crypto.HexToECDSA'', snd (crypto_HexToECDSA E hexkey))])
   \<and> NewStream E r inputLimit = (rlp_NewStream E r inputLimit, [(''rlp.NewStream'', None)])
   \<and> SignTx E tx sg prv =
       (types_SignTx E tx sg prv, [(''types.SignTx'', snd (types_SignTx E tx sg prv))])"
  by (simp add: eth_defs abi_defs ABITypeKnown_def Let_def split_beta)

text \<open>
  C2 as it is written fails. \<open>ABIEventSignature\<close> on the event \<open>Transfer\<close> with an address
  and a uint256 input calls \<open>String\<close> twice and formats the signature itself; on an event
  without inputs it returns a signature without any call into the wrapped library.
  \<open>ABIMarshalingToABIRuntime\<close> is a JSON round trip through \<open>encoding/json\<close>;
  \<open>ABIArgumentsMarshalingToABIArguments\<close> calls \<open>abi.NewType\<close> once for each element; and
  \<open>ABIElementMarshalingToABIMethod\<close> converts inputs and outputs before it calls
  \<open>abi.NewMethod\<close>.
\<close>

theorem single_delegation_counterexample:
  "ABIEventSignature demo_abi (Some transfer_event) =
     Some (''Transfer(address,uint256)'',
           [(''abi.Type.String'', None), (''abi.Type.String'', None),
            (''strings.Join'', None), (''fmt.Sprintf'', None)])
   \<and> ABIEventSignature demo_abi (Some \<lparr>RawName = ''Ping'', Inputs = Some []\<rparr>) =
       Some (''Ping()'', [(''strings.Join'', None), (''fmt.Sprintf'', None)])
   \<and> map fst (snd (ABIMarshalingToABIRuntime demo_abi (Some []))) =
       [''json.Marshal'', ''json.Unmarshal'']
   \<and> map fst (snd (ABIArgumentsMarshalingToABIArguments demo_abi
                      (Some [ABIArgumentMarshaling ''to'' ''address'' '''' None True,
                             ABIArgumentMarshaling ''value'' ''uint256'' '''' None False]))) =
       [''abi.NewType'', ''abi.NewType'']
   \<and> map_option (map fst \<circ> snd)
       (ABIElementMarshalingToABIMethod demo_abi
          (Some \<lparr>eName = ''pay'', eAnonymous = False, eStateMutability = ''payable'',
                 eConstant = False, ePayable = True,
                 eInputs = Some [ABIArgumentMarshaling ''to'' ''address'' '''' None False],
                 eOutputs = Some [ABIArgumentMarshaling ''ok'' ''bool'' '''' None False]\<rparr>)) =
       Some [''abi.NewType'', ''abi.NewType'', ''abi.NewMethod'']"
  by (simp add: ABIEventSignature_def transfer_event_def demo_defs elems_def
      fmt_Sprintf_v_paren_v_def ABIMarshalingToABIRuntime_def
      ABIArgumentsMarshalingToABIArguments_def ABIElementMarshalingToABIMethod_def
      convert_components_def)

section \<open>Validation and failure handling\<close>

text \<open>
  C3, as amended. Every operation of the interface other than \<open>ABITypeKnown\<close>,
  \<open>ABIMarshalingToABIRuntime\<close>, \<open>ABIArgumentsMarshalingToABIArguments\<close>,
  \<open>ABIElementMarshalingToABIEvent\<close> and \<open>ABIElementMarshalingToABIMethod\<close> adds no validation,
  retry or failure handling. It checks no input and takes no error branch: whatever the
  input and whatever the library returns, it makes the one call to its wrapped function,
  on its own arguments, and returns the result of that call as it is, error included
  (\<open>ABIEventSignature\<close>, which has no error to handle, one call of \<open>String\<close> for each input
  of the event, then the formatting). So it withholds no error of a call it makes.
  \<open>ABIMarshalingToABIRuntime\<close> takes no branch either: it always calls \<open>json.Marshal\<close> and
  then \<open>json.Unmarshal\<close> on the bytes, and returns the outcome of the latter; the only
  error it can withhold is that of \<open>json.Marshal\<close>.
\<close>

theorem no_failure_handling:
  "HexDecode E hex = (hexutil_Decode E hex, [(''hexutil.Decode'', snd (hexutil_Decode E hex))])
   \<and> suppressed_errors (snd (fst (HexDecode E hex))) (snd (HexDecode E hex)) = []
   \<and> HexToAddress E hex = (common_HexToAddress E hex, [(''common.HexToAddress'', None)])
   \<and> suppressed_errors None (snd (HexToAddress E hex)) = []
   \<and> BytesToAddress E b = (common_BytesToAddress E b, [(''common.BytesToAddress'', None)])
   \<and> suppressed_errors None (snd (BytesToAddress E b)) = []
   \<and> IsHexAddress E s = (common_IsHexAddress E s, [(''common.IsHexAddress'', None)])
   \<and> suppressed_errors None (snd (IsHexAddress E s)) = []
   \<and> HexToHash E hex = (common_HexToHash E hex, [(''common.HexToHash'', None)])
   \<and> suppressed_errors None (snd (HexToHash E hex)) = []
   \<and> EncodeBig E bigint = (hexutil_EncodeBig E bigint, [(''hexutil.EncodeBig'', None)])
   \<and> suppressed_errors None (snd (EncodeBig E bigint)) = []
   \<and> FromHex E hex = (common_FromHex E hex, [(''common.FromHex'', None)])
   \<and> suppressed_errors None (snd (FromHex E hex)) = []
   \<and> ABITypeFor L typeName =
       (abi_NewType L typeName '''' (Some []),
        [(''abi.NewType'', snd (abi_NewType L typeName '''' (Some [])))])
   \<and> suppressed_errors (snd (fst (ABITypeFor L typeName))) (snd (ABITypeFor L typeName)) = []
   \<and> NewType L typeName internalType =
       (abi_NewType L typeName internalType (Some []),
        [(''abi.NewType'', snd (abi_NewType L typeName internalType (Some [])))])
   \<and> suppressed_errors (snd (fst (NewType L typeName internalType)))
        (snd (NewType L typeName internalType)) = []
   \<and> JSON L reader = (abi_JSON L reader, [(''abi.JSON'', snd (abi_JSON L reader))])
   \<and> suppressed_errors (snd (fst (JSON L reader))) (snd (JSON L reader)) = []
   \<and> SolidityVersion E solc =
       (compiler_SolidityVersion E solc,
        [(''compiler.SolidityVersion'', snd (compiler_SolidityVersion E solc))])
   \<and> suppressed_errors (snd (fst (SolidityVersion E solc))) (snd (SolidityVersion E solc)) = []
   \<and> ParseCombinedJSON E combinedJSON source languageVersion compilerVersion compilerOptions =
       (compiler_ParseCombinedJSON E combinedJSON source languageVersion compilerVersion
          compilerOptions,
        [(''compiler.ParseCombinedJSON'',
          snd (compiler_ParseCombinedJSON E combinedJSON source languageVersion compilerVersion
                 compilerOptions))])
   \<and> suppressed_errors
        (snd (fst (ParseCombinedJSON E combinedJSON source languageVersion compilerVersion
                     compilerOptions)))
        (snd (ParseCombinedJSON E combinedJSON source languageVersion compilerVersion
                compilerOptions)) = []
   \<and> Dial E rawurl = (rpc_Dial E rawurl, [(''rpc.Dial'', snd (rpc_Dial E rawurl))])
   \<and> suppressed_errors (snd (fst (Dial E rawurl))) (snd (Dial E rawurl)) = []
   \<and> NewMethod L name rawName funType mutability isConst isPayable inputs outputs =
       (abi_NewMethod L name rawName funType mutability isConst isPayable inputs outputs,
        [(''abi.NewMethod'', None)])
   \<and> suppressed_errors None
        (snd (NewMethod L name rawName funType mutability isConst isPayable inputs outputs)) = []
   \<and> NewTransaction E nonce to amount gasLimit gasPrice data =
       (types_NewTransaction E nonce to amount gasLimit gasPrice data,
        [(''types.NewTransaction'', None)])
   \<and> suppressed_errors None (snd (NewTransaction E nonce to amount gasLimit gasPrice data)) = []
   \<and> NewContractCreation E nonce amount gasLimit gasPrice data =
       (types_NewContractCreation E nonce amount gasLimit gasPrice data,
        [(''types.NewContractCreation'', None)])
   \<and> suppressed_errors None (snd (NewContractCreation E nonce amount gasLimit gasPrice data))
       = []
   \<and> NewEIP155Signer E chainID =
       (types_NewEIP155Signer E chainID, [(''types.NewEIP155Signer'', None)])
   \<and> suppressed_errors None (snd (NewEIP155Signer E chainID)) = []
   \<and> ParseBig256 E s = (math_ParseBig256 E s, [(''math.ParseBig256'', None)])
   \<and> suppressed_errors None (snd (ParseBig256 E s)) = []
   \<and> S256 E x = (math_S256 E x, [(''math.S256'', None)])
   \<and> suppressed_errors None (snd (S256 E x)) = []
   \<and> GenerateKey E = (crypto_GenerateKey E, [(''crypto.GenerateKey'', snd (crypto_GenerateKey E))])
   \<and> suppressed_errors (snd (fst (GenerateKey E))) (snd (GenerateKey E)) = []
   \<and> PubkeyToAddress E p = (crypto_PubkeyToAddress E p, [(''crypto.PubkeyToAddress'', None)])
   \<and> suppressed_errors None (snd (PubkeyToAddress E p)) = []
   \<and> FromECDSA E priv = (crypto_FromECDSA E priv, [(''crypto.FromECDSA'', None)])
   \<and> suppressed_errors None (snd (FromECDSA E priv)) = []
   \<and> HexToECDSA E hexkey =
       (crypto_HexToECDSA E hexkey, [(''crypto.HexToECDSA'', snd (crypto_HexToECDSA E hexkey))])
   \<and> suppressed_errors (snd (fst (HexToECDSA E hexkey))) (snd (HexToECDSA E hexkey)) = []
   \<and> NewStream E r inputLimit = (rlp_NewStream E r inputLimit, [(''rlp.NewStream'', None)])
   \<and> suppressed_errors None (snd (NewStream E r inputLimit)) = []
   \<and> SignTx E tx sg prv =
       (types_SignTx E tx sg prv, [(''types.SignTx'', snd (types_SignTx E tx sg prv))])
   \<and> suppressed_errors (snd (fst (SignTx E tx sg prv))) (snd (SignTx E tx sg prv)) = []
   \<and> ABIEventSignature L (Some ev) =
       Some (RawName ev @ ''('' @
             joined_by '','' (map (\<lambda>input. abi_Type_String L (Type input)) (elems (Inputs ev)))
             @ '')'',
             replicate (length (elems (Inputs ev))) (''abi.Type.String'', None)
             @ [(''strings.Join'', None), (''fmt.Sprintf'', None)])
   \<and> map_option (\<lambda>res. suppressed_errors None (snd res)) (ABIEventSignature L (Some ev))
       = Some []
   \<and> ABIMarshalingToABIRuntime L marshalable =
       ((Some (fst (json_Unmarshal_RuntimeABI L
                      (fst (json_Marshal_ABIMarshaling L marshalable)) (ABI_zero L))),
         snd (json_Unmarshal_RuntimeABI L
                (fst (json_Marshal_ABIMarshaling L marshalable)) (ABI_zero L))),
        [(''json.Marshal'', snd (json_Marshal_ABIMarshaling L marshalable)),
         (''json.Unmarshal'',
          snd (json_Unmarshal_RuntimeABI L
                 (fst (json_Marshal_ABIMarshaling L marshalable)) (ABI_zero L)))])
   \<and> suppressed_errors (snd (fst (ABIMarshalingToABIRuntime L marshalable)))
        (snd (ABIMarshalingToABIRuntime L marshalable))
       = suppressed_errors (snd (fst (ABIMarshalingToABIRuntime L marshalable)))
           [(''json.Marshal'', snd (json_Marshal_ABIMarshaling L marshalable))]"
proof -
  have eth:
    "HexDecode E hex = (hexutil_Decode E hex, [(''hexutil.Decode'', snd (hexutil_Decode E hex))])"
    "HexToAddress E hex = (common_HexToAddress E hex, [(''common.HexToAddress'', None)])"
    "BytesToAddress E b = (common_BytesToAddress E b, [(''common.BytesToAddress'', None)])"
    "IsHexAddress E s = (common_IsHexAddress E s, [(''common.IsHexAddress'', None)])"
    "HexToHash E hex = (common_HexToHash E hex, [(''common.HexToHash'', None)])"
    "EncodeBig E bigint = (hexutil_EncodeBig E bigint, [(''hexutil.EncodeBig'', None)])"
    "FromHex E hex = (common_FromHex E hex, [(''common.FromHex'', None)])"
    "SolidityVersion E solc =
       (compiler_SolidityVersion E solc,
        [(''compiler.SolidityVersion'', snd (compiler_SolidityVersion E solc))])"
    "ParseCombinedJSON E combinedJSON source languageVersion compilerVersion compilerOptions =
       (compiler_ParseCombinedJSON E combinedJSON source languageVersion compilerVersion
          compilerOptions,
        [(''compiler.ParseCombinedJSON'',
          snd (compiler_ParseCombinedJSON E combinedJSON source languageVersion compilerVersion
                 compilerOptions))])"
    "Dial E rawurl = (rpc_Dial E rawurl, [(''rpc.Dial'', snd (rpc_Dial E rawurl))])"
    "NewTransaction E nonce to amount gasLimit gasPrice data =
       (types_NewTransaction E nonce to amount gasLimit gasPrice data,
        [(''types.NewTransaction'', None)])"
    "NewContractCreation E nonce amount gasLimit gasPrice data =
       (types_NewContractCreation E nonce amount gasLimit gasPrice data,
        [(''types.NewContractCreation'', None)])"
    "NewEIP155Signer E chainID =
       (types_NewEIP155Signer E chainID, [(''types.NewEIP155Signer'', None)])"
    "ParseBig256 E s = (math_ParseBig256 E s, [(''math.ParseBig256'', None)])"
    "S256 E x = (math_S256 E x, [(''math.S256'', None)])"
    "GenerateKey E = (crypto_GenerateKey E, [(''crypto.GenerateKey'', snd (crypto_GenerateKey E))])"
    "PubkeyToAddress E p = (crypto_PubkeyToAddress E p, [(''crypto.PubkeyToAddress'', None)])"
    "FromECDSA E priv = (crypto_FromECDSA E priv, [(''crypto.FromECDSA'', None)])"
    "HexToECDSA E hexkey =
       (crypto_HexToECDSA E hexkey, [(''crypto.HexToECDSA'', snd (crypto_HexToECDSA E hexkey))])"
    "NewStream E r inputLimit = (rlp_NewStream E r inputLimit, [(''rlp.NewStream'', None)])"
    "SignTx E tx sg prv =
       (types_SignTx E tx sg prv, [(''types.SignTx'', snd (types_SignTx E tx sg prv))])"
    by (simp_all add: eth_defs Let_def split_beta)
  have abi:
    "ABITypeFor L typeName =
       (abi_NewType L typeName '''' (Some []),
        [(''abi.NewType'', snd (abi_NewType L typeName '''' (Some [])))])"
    "NewType L typeName internalType =
       (abi_NewType L typeName internalType (Some []),
        [(''abi.NewType'', snd (abi_NewType L typeName internalType (Some [])))])"
    "JSON L reader = (abi_JSON L reader, [(''abi.JSON'', snd (abi_JSON L reader))])"
    "NewMethod L name rawName funType mutability isConst isPayable inputs outputs =
       (abi_NewMethod L name rawName funType mutability isConst isPayable inputs outputs,
        [(''abi.NewMethod'', None)])"
    by (simp_all add: abi_defs Let_def split_beta)
  have event:
    "ABIEventSignature L (Some ev) =
       Some (RawName ev @ ''('' @
             joined_by '','' (map (\<lambda>input. abi_Type_String L (Type input)) (elems (Inputs ev)))
             @ '')'',
             replicate (length (elems (Inputs ev))) (''abi.Type.String'', None)
             @ [(''strings.Join'', None), (''fmt.Sprintf'', None)])"
    by (simp add: ABIEventSignature_value event_signature_spec_def)
  have runtime:
    "ABIMarshalingToABIRuntime L marshalable =
       ((Some (fst (json_Unmarshal_RuntimeABI L
                      (fst (json_Marshal_ABIMarshaling L marshalable)) (ABI_zero L))),
         snd (json_Unmarshal_RuntimeABI L
                (fst (json_Marshal_ABIMarshaling L marshalable)) (ABI_zero L))),
        [(''json.Marshal'', snd (json_Marshal_ABIMarshaling L marshalable)),
         (''json.Unmarshal'',
          snd (json_Unmarshal_RuntimeABI L
                 (fst (json_Marshal_ABIMarshaling L marshalable)) (ABI_zero L)))])"
    by (simp add: ABIMarshalingToABIRuntime_def Let_def split_beta)
  show ?thesis
    unfolding eth abi event runtime
    by (simp add: suppressed_errors_Nil suppressed_errors_append suppressed_errors_same
        suppressed_errors_None suppressed_errors_replicate suppressed_errors_last)
qed

text \<open>
  C3 as it is written fails. \<open>ABITypeKnown\<close> on the type name \<open>foo\<close> withholds the error of
  \<open>abi.NewType\<close>. \<open>ABIArgumentsMarshalingToABIArguments\<close> on an element of the unknown type
  \<open>foo\<close> followed by a \<open>uint256\<close> takes its error branch: it returns a nil slice and the
  error after one call, and never looks at the second element. It checks the components
  of each element for nil: the JSON round trip is made for an empty list of components,
  and not for a nil one.
\<close>

theorem no_failure_handling_counterexample:
  "suppressed_errors None (snd (ABITypeKnown demo_abi ''foo''))
     = [Err ''unsupported arg type: foo'']
   \<and> ABIArgumentsMarshalingToABIArguments demo_abi
       (Some [ABIArgumentMarshaling ''a'' ''foo'' '''' None False,
              ABIArgumentMarshaling ''b'' ''uint256'' '''' None False])
     = ((None, Some (Err ''unsupported arg type: foo'')),
        [(''abi.NewType'', Some (Err ''unsupported arg type: foo''))])
   \<and> map fst (snd (ABIArgumentsMarshalingToABIArguments demo_abi
                      (Some [ABIArgumentMarshaling ''a'' ''bool'' '''' None False])))
     = [''abi.NewType'']
   \<and> map fst (snd (ABIArgumentsMarshalingToABIArguments demo_abi
                      (Some [ABIArgumentMarshaling ''a'' ''bool'' '''' (Some []) False])))
     = [''json.Marshal'', ''json.Unmarshal'', ''abi.NewType'']"
  by (simp add: suppressed_errors_def ABITypeKnown_def demo_defs
      ABIArgumentsMarshalingToABIArguments_def convert_components_def elems_def)

section \<open>Returned errors\<close>

text \<open>
  C4. For every operation of the interface that has an error result, the error returned
  is the error value of the wrapped call, handed on as it is, and the operation returns an
  error exactly when that call does. For the ten operations that make one call it is the
  error of the wrapped function on the same arguments; for \<open>ABIMarshalingToABIRuntime\<close> the
  error of \<open>json.Unmarshal\<close> on the bytes \<open>json.Marshal\<close> produced.
  \<open>ABIArgumentsMarshalingToABIArguments\<close> returns the error of \<open>abi.NewType\<close> for the first
  element that \<open>abi.NewType\<close> rejects, beside a nil slice, and no error exactly when
  \<open>abi.NewType\<close> accepts every element, beside the converted elements.
  \<open>ABIElementMarshalingToABIEvent\<close> returns that error for its inputs, and
  \<open>ABIElementMarshalingToABIMethod\<close> for its inputs and, when these are all accepted, for
  its outputs; both return a nil pointer with an error and the outcome of \<open>abi.NewEvent\<close>
  or \<open>abi.NewMethod\<close> without one. In each case the error is also the error of the last
  call the operation made. The two conversions that take a pointer are stated for a
  pointer that is not nil; the wrapped library here is go-ethereum, reached directly or,
  for the runtime ABI, through \<open>json.Unmarshal\<close>.
\<close>

theorem returned_error_is_wrapped_error:
  "snd (fst (HexDecode E hex)) = snd (hexutil_Decode E hex)
   \<and> snd (fst (HexDecode E hex)) = last_error (snd (HexDecode E hex))
   \<and> snd (fst (ABITypeFor L typeName)) = snd (abi_NewType L typeName '''' (Some []))
   \<and> snd (fst (ABITypeFor L typeName)) = last_error (snd (ABITypeFor L typeName))
   \<and> snd (fst (NewType L typeName internalType))
       = snd (abi_NewType L typeName internalType (Some []))
   \<and> snd (fst (NewType L typeName internalType))
       = last_error (snd (NewType L typeName internalType))
   \<and> snd (fst (JSON L reader)) = snd (abi_JSON L reader)
   \<and> snd (fst (JSON L reader)) = last_error (snd (JSON L reader))
   \<and> snd (fst (SolidityVersion E solc)) = snd (compiler_SolidityVersion E solc)
   \<and> snd (fst (SolidityVersion E solc)) = last_error (snd (SolidityVersion E solc))
   \<and> snd (fst (ParseCombinedJSON E combinedJSON source languageVersion compilerVersion
                  compilerOptions))
       = snd (compiler_ParseCombinedJSON E combinedJSON source languageVersion compilerVersion
                compilerOptions)
   \<and> snd (fst (ParseCombinedJSON E combinedJSON source languageVersion compilerVersion
                  compilerOptions))
       = last_error (snd (ParseCombinedJSON E combinedJSON source languageVersion
                            compilerVersion compilerOptions))
   \<and> snd (fst (Dial E rawurl)) = snd (rpc_Dial E rawurl)
   \<and> snd (fst (Dial E rawurl)) = last_error (snd (Dial E rawurl))
   \<and> snd (fst (GenerateKey E)) = snd (crypto_GenerateKey E)
   \<and> snd (fst (GenerateKey E)) = last_error (snd (GenerateKey E))
   \<and> snd (fst (HexToECDSA E hexkey)) = snd (crypto_HexToECDSA E hexkey)
   \<and> snd (fst (HexToECDSA E hexkey)) = last_error (snd (HexToECDSA E hexkey))
   \<and> snd (fst (SignTx E tx sg prv)) = snd (types_SignTx E tx sg prv)
   \<and> snd (fst (SignTx E tx sg prv)) = last_error (snd (SignTx E tx sg prv))
   \<and> snd (fst (ABIMarshalingToABIRuntime L marshalable))
       = snd (json_Unmarshal_RuntimeABI L (fst (json_Marshal_ABIMarshaling L marshalable))
                (ABI_zero L))
   \<and> snd (fst (ABIMarshalingToABIRuntime L marshalable))
       = last_error (snd (ABIMarshalingToABIRuntime L marshalable))
   \<and> snd (fst (ABIArgumentsMarshalingToABIArguments L ms))
       = last_error (snd (ABIArgumentsMarshalingToABIArguments L ms))
   \<and> (case ABIElementMarshalingToABIEvent L (Some m) of
         None \<Rightarrow> False
       | Some res \<Rightarrow> snd (fst res) = last_error (snd res))
   \<and> (case ABIElementMarshalingToABIMethod L (Some m) of
         None \<Rightarrow> False
       | Some res \<Rightarrow> snd (fst res) = last_error (snd res))
   \<and> fst (ABIArgumentsMarshalingToABIArguments L ms) =
       (case first_rejection L (elems ms) of
          None \<Rightarrow> (Some (map (converted L) (elems ms)), None)
        | Some e \<Rightarrow> (None, Some e))
   \<and> snd (fst (ABIArgumentsMarshalingToABIArguments L ms)) = first_rejection L (elems ms)
   \<and> (snd (fst (ABIArgumentsMarshalingToABIArguments L ms)) = None)
       = list_all (accepted L) (elems ms)
   \<and> map_option fst (ABIElementMarshalingToABIEvent L (Some m)) =
       Some (case first_rejection L (elems (eInputs m)) of
               None \<Rightarrow>
                 (Some (abi_NewEvent L (eName m) (eName m) (eAnonymous m)
                          (Some (map (converted L) (elems (eInputs m))))), None)
             | Some e \<Rightarrow> (None, Some e))
   \<and> map_option (\<lambda>res. snd (fst res)) (ABIElementMarshalingToABIEvent L (Some m)) =
       Some (first_rejection L (elems (eInputs m)))
   \<and> map_option fst (ABIElementMarshalingToABIMethod L (Some m)) =
       Some (case first_rejection L (elems (eInputs m)) of
               Some e \<Rightarrow> (None, Some e)
             | None \<Rightarrow>
                 (case first_rejection L (elems (eOutputs m)) of
                    Some e \<Rightarrow> (None, Some e)
                  | None \<Rightarrow>
                      (Some (abi_NewMethod L (eName m) (eName m) (abi_Function L)
                               (eStateMutability m) (eConstant m) (ePayable m)
                               (Some (map (converted L) (elems (eInputs m))))
                               (Some (map (converted L) (elems (eOutputs m))))), None)))
   \<and> map_option (\<lambda>res. snd (fst res)) (ABIElementMarshalingToABIMethod L (Some m)) =
       Some (case first_rejection L (elems (eInputs m)) of
               Some e \<Rightarrow> Some e
             | None \<Rightarrow> first_rejection L (elems (eOutputs m)))"
proof -
  have single:
    "snd (fst (HexDecode E hex)) = snd (hexutil_Decode E hex)"
    "snd (fst (HexDecode E hex)) = last_error (snd (HexDecode E hex))"
    "snd (fst (ABITypeFor L typeName)) = snd (abi_NewType L typeName '''' (Some []))"
    "snd (fst (ABITypeFor L typeName)) = last_error (snd (ABITypeFor L typeName))"
    "snd (fst (NewType L typeName internalType))
       = snd (abi_NewType L typeName internalType (Some []))"
    "snd (fst (NewType L typeName internalType))
       = last_error (snd (NewType L typeName internalType))"
    "snd (fst (JSON L reader)) = snd (abi_JSON L reader)"
    "snd (fst (JSON L reader)) = last_error (snd (JSON L reader))"
    "snd (fst (SolidityVersion E solc)) = snd (compiler_SolidityVersion E solc)"
    "snd (fst (SolidityVersion E solc)) = last_error (snd (SolidityVersion E solc))"
    by (simp_all add: eth_defs abi_defs Let_def split_beta)
  have single':
    "snd (fst (ParseCombinedJSON E combinedJSON source languageVersion compilerVersion
                  compilerOptions))
       = snd (compiler_ParseCombinedJSON E combinedJSON source languageVersion compilerVersion
                compilerOptions)"
    "snd (fst (ParseCombinedJSON E combinedJSON source languageVersion compilerVersion
                  compilerOptions))
       = last_error (snd (ParseCombinedJSON E combinedJSON source languageVersion
                            compilerVersion compilerOptions))"
    "snd (fst (Dial E rawurl)) = snd (rpc_Dial E rawurl)"
    "snd (fst (Dial E rawurl)) = last_error (snd (Dial E rawurl))"
    "snd (fst (GenerateKey E)) = snd (crypto_GenerateKey E)"
    "snd (fst (GenerateKey E)) = last_error (snd (GenerateKey E))"
    "snd (fst (HexToECDSA E hexkey)) = snd (crypto_HexToECDSA E hexkey)"
    "snd (fst (HexToECDSA E hexkey)) = last_error (snd (HexToECDSA E hexkey))"
    "snd (fst (SignTx E tx sg prv)) = snd (types_SignTx E tx sg prv)"
    "snd (fst (SignTx E tx sg prv)) = last_error (snd (SignTx E tx sg prv))"
    by (simp_all add: eth_defs Let_def split_beta)
  have runtime:
    "snd (fst (ABIMarshalingToABIRuntime L marshalable))
       = snd (json_Unmarshal_RuntimeABI L (fst (json_Marshal_ABIMarshaling L marshalable))
                (ABI_zero L))"
    "snd (fst (ABIMarshalingToABIRuntime L marshalable))
       = last_error (snd (ABIMarshalingToABIRuntime L marshalable))"
    by (simp_all add: ABIMarshalingToABIRuntime_def Let_def split_beta)
  have accepted_all:
    "(snd (fst (ABIArgumentsMarshalingToABIArguments L ms)) = None)
       = list_all (accepted L) (elems ms)"
    by (simp add: arguments_error first_rejection_None)
  have event_err:
    "map_option (\<lambda>res. snd (fst res)) (ABIElementMarshalingToABIEvent L (Some m)) =
       Some (first_rejection L (elems (eInputs m)))"
    using event_result [of L m]
    by (cases "ABIElementMarshalingToABIEvent L (Some m)") (auto split: option.splits)
  have method_err:
    "map_option (\<lambda>res. snd (fst res)) (ABIElementMarshalingToABIMethod L (Some m)) =
       Some (case first_rejection L (elems (eInputs m)) of
               Some e \<Rightarrow> Some e
             | None \<Rightarrow> first_rejection L (elems (eOutputs m)))"
    using method_result [of L m]
    by (cases "ABIElementMarshalingToABIMethod L (Some m)") (auto split: option.splits)
  show ?thesis
    using single single' runtime arguments_error_last [of L ms] event_error_last [of L m]
      method_error_last [of L m] arguments_result [of L ms] arguments_error [of L ms]
      accepted_all event_result [of L m] event_err method_result [of L m] method_err
    by (intro conjI) assumption+
qed

section \<open>The size of the interface\<close>

text \<open>
  C6, as amended. The interface \<open>EthAPI\<close> exposes thirty-one operations, of distinct
  names, covering hex and address conversion, ABI type construction, event and method
  signature derivation, Solidity compiler invocation, RPC dialing, transaction
  construction and signing, key generation and RLP stream decoding; their implementations
  call into the go-ethereum packages hexutil, common, abi, compiler, rpc, types, math,
  crypto and rlp.
\<close>

theorem EthAPI_thirty_one:
  "length EthAPI_methods = 31 \<and> distinct EthAPI_methods \<and> list_all covered areas
   \<and> list_all (\<lambda>p. p \<in> set (concat (map snd EthAPI)))
       [''hexutil'', ''common'', ''abi'', ''compiler'', ''rpc'', ''types'', ''math'', ''crypto'',
        ''rlp'']"
  by (simp add: EthAPI_methods_def EthAPI_def covered_def areas_def)

text \<open>
  C6 as it is written fails: thirty-one is thirty to the nearest ten, not forty.
\<close>

theorem EthAPI_not_roughly_forty: "\<not> roughly_forty (length EthAPI_methods)"
  by (simp add: roughly_forty_def EthAPI_methods_def EthAPI_def)

section \<open>Known types\<close>



end
